theory Spec2Isabelle
  imports Main "HOL-Library.AList"
begin

section \<open>Go values shared by the modules\<close>

text \<open>
  A Go \<^verbatim>\<open>error\<close> is a message, possibly wrapping the error that caused it.
  \<^verbatim>\<open>fmt.Errorf("p: %v", err)\<close> builds a new error whose message embeds the
  message of \<open>err\<close>; \<^verbatim>\<open>fmt.Errorf("p: %w", err)\<close> also keeps \<open>err\<close> itself,
  so that it can be unwrapped.
\<close>

datatype error = ErrorString string | WrapError string error

fun Error :: "error \<Rightarrow> string" where
  "Error (ErrorString s) = s"
| "Error (WrapError p e) = p @ Error e"

fun Unwrap :: "error \<Rightarrow> error option" where
  "Unwrap (ErrorString s) = None"
| "Unwrap (WrapError p e) = Some e"

definition Errorf_v :: "string \<Rightarrow> error \<Rightarrow> error" where
  "Errorf_v p err = ErrorString (p @ Error err)"

definition Errorf_w :: "string \<Rightarrow> error \<Rightarrow> error" where
  "Errorf_w p err = WrapError p err"

text \<open>
  A function that returns \<^verbatim>\<open>(T, error)\<close> is a value of \<open>error + T\<close>: \<open>Inl\<close> is the
  non-nil error, \<open>Inr\<close> the result returned with a nil error. A call that dereferences a
  nil pointer does not return at all: it panics.
\<close>

datatype 'a outcome = Returns 'a | Panics string

section \<open>The gh module\<close>

subsection \<open>The git repository behind go-git\<close>

text \<open>
  The module drives a local repository through the library go-git, which is outside the
  sources. Its repository is modelled by the state the module's calls read and write:
  the branch references, HEAD, the commit objects, the index and the working tree.
  A commit hash is the position of the commit in the object store, so a new commit
  always receives a hash no other object has; a tree hash is identified with the tree
  it names (paths with their contents), so two trees have the same hash exactly when
  they are equal.
\<close>

type_synonym hash = nat

type_synonym tree = "(string \<times> string) list"

record Signature =
  SigName :: string
  SigEmail :: string

record Commit =
  Author :: Signature
  Committer :: Signature
  Message :: string
  TreeHash :: tree
  ParentHashes :: "hash list"

text \<open>HEAD names a branch reference, or holds a hash when it is detached.\<close>

datatype head = OnBranch string | Detached hash

record Repository =
  refs :: "(string \<times> hash) list"
  HEAD :: head
  objects :: "Commit list"
  index :: tree
  worktree :: tree
  bare :: bool

datatype Reference = NewHashReference (RefName: string) (Hash: hash)

definition NewBranchReferenceName :: "string \<Rightarrow> string" where
  "NewBranchReferenceName name = ''refs/heads/'' @ name"

definition ErrReferenceNotFound :: error where
  "ErrReferenceNotFound = ErrorString ''reference not found''"

definition ErrRepositoryNotExists :: error where
  "ErrRepositoryNotExists = ErrorString ''repository does not exist''"

definition ErrIsBareRepository :: error where
  "ErrIsBareRepository = ErrorString ''worktree not available in a bare repository''"

definition ErrUnstagedChanges :: error where
  "ErrUnstagedChanges = ErrorString ''worktree contains unstaged changes''"

definition ErrObjectNotFound :: error where
  "ErrObjectNotFound = ErrorString ''object not found''"

text \<open>
  Calls that reach the disk or the Dagger engine can fail for reasons the repository
  does not determine. The error such a call returns, if any, is an input.
\<close>

record faults =
  export_fault :: "error option"
  checkout_fault :: "error option"
  set_reference_fault :: "error option"
  add_fault :: "error option"
  commit_fault :: "error option"

definition no_faults :: faults where
  "no_faults = \<lparr>export_fault = None, checkout_fault = None, set_reference_fault = None,
                 add_fault = None, commit_fault = None\<rparr>"

definition CommitObject :: "Repository \<Rightarrow> hash \<Rightarrow> Commit option" where
  "CommitObject r h = (if h < length (objects r) then Some (objects r ! h) else None)"

text \<open>\<^verbatim>\<open>Repository.Reference(name, true)\<close>\<close>

definition Repository_Reference :: "Repository \<Rightarrow> string \<Rightarrow> error + Reference" where
  "Repository_Reference r name =
     (case map_of (refs r) name of
        None \<Rightarrow> Inl ErrReferenceNotFound
      | Some h \<Rightarrow> Inr (NewHashReference name h))"

text \<open>\<^verbatim>\<open>Repository.Head()\<close>: HEAD resolved to a hash reference.\<close>

definition Repository_Head :: "Repository \<Rightarrow> error + Reference" where
  "Repository_Head r =
     (case HEAD r of
        Detached h \<Rightarrow> Inr (NewHashReference ''HEAD'' h)
      | OnBranch name \<Rightarrow> Repository_Reference r name)"

text \<open>\<^verbatim>\<open>Repository.Worktree()\<close>: a bare repository has no working tree.\<close>

definition Repository_Worktree :: "Repository \<Rightarrow> error + unit" where
  "Repository_Worktree r = (if bare r then Inl ErrIsBareRepository else Inr ())"

text \<open>
  \<^verbatim>\<open>Storer.SetReference(ref)\<close> writes the reference whether or not one of that
  name exists.
\<close>

definition Storer_SetReference :: "faults \<Rightarrow> Repository \<Rightarrow> Reference \<Rightarrow> error option \<times> Repository" where
  "Storer_SetReference ft r ref =
     (case set_reference_fault ft of
        Some e \<Rightarrow> (Some e, r)
      | None \<Rightarrow> (None, r\<lparr>refs := AList.update (RefName ref) (Hash ref) (refs r)\<rparr>))"

text \<open>
  The working tree has unstaged changes when a tracked file, one with an entry in the
  index, is modified or deleted in the working tree. A file that is only in the working
  tree is untracked and does not count.
\<close>

definition containsUnstagedChanges :: "Repository \<Rightarrow> bool" where
  "containsUnstagedChanges r =
     list_ex (\<lambda>(p, c). map_of (worktree r) p \<noteq> Some c) (index r)"

definition untracked :: "Repository \<Rightarrow> tree" where
  "untracked r = filter (\<lambda>(p, c). map_of (index r) p = None) (worktree r)"

text \<open>
  \<^verbatim>\<open>Worktree.Checkout(&CheckoutOptions{Branch: branch})\<close>. go-git resolves the
  branch, points HEAD at it, and then resets the index and the working tree to the
  tree of the branch's commit, leaving untracked files in place; the reset is refused
  when the commit object is missing or the working tree has unstaged changes. HEAD
  has moved by then.
\<close>

definition Worktree_Checkout :: "faults \<Rightarrow> Repository \<Rightarrow> string \<Rightarrow> error option \<times> Repository" where
  "Worktree_Checkout ft r branch =
     (case checkout_fault ft of
        Some e \<Rightarrow> (Some e, r)
      | None \<Rightarrow>
     (case map_of (refs r) branch of
        None \<Rightarrow> (Some ErrReferenceNotFound, r)
      | Some c \<Rightarrow>
     (let r1 = r\<lparr>HEAD := OnBranch branch\<rparr>
      in case CommitObject r1 c of
           None \<Rightarrow> (Some ErrObjectNotFound, r1)
         | Some commit \<Rightarrow>
             if containsUnstagedChanges r1 then (Some ErrUnstagedChanges, r1)
             else (None, r1\<lparr>index := TreeHash commit,
                             worktree := TreeHash commit
                               @ filter (\<lambda>(p, c). map_of (TreeHash commit) p = None)
                                   (untracked r1)\<rparr>))))"

text \<open>\<^verbatim>\<open>Worktree.Add(".")\<close> stages the whole working tree.\<close>

definition Worktree_Add :: "faults \<Rightarrow> Repository \<Rightarrow> error option \<times> Repository" where
  "Worktree_Add ft r =
     (case add_fault ft of
        Some e \<Rightarrow> (Some e, r)
      | None \<Rightarrow> (None, r\<lparr>index := worktree r\<rparr>))"

text \<open>
  With \<^verbatim>\<open>All: true\<close> a commit first stages every tracked file that is modified in
  the working tree and unstages every tracked file that is deleted there.
\<close>

definition autoAddModifiedAndDeleted :: "Repository \<Rightarrow> Repository" where
  "autoAddModifiedAndDeleted r =
     r\<lparr>index :=
         fold (\<lambda>p idx. case map_of (worktree r) p of
                          None \<Rightarrow> AList.delete p idx
                        | Some c \<Rightarrow> AList.update p c idx)
              (map fst (index r)) (index r)\<rparr>"

text \<open>The branch HEAD is on moves to the commit; a detached HEAD moves itself.\<close>

definition updateHEAD :: "Repository \<Rightarrow> hash \<Rightarrow> Repository" where
  "updateHEAD r commit =
     (case HEAD r of
        OnBranch name \<Rightarrow> r\<lparr>refs := AList.update name commit (refs r)\<rparr>
      | Detached h \<Rightarrow> r\<lparr>HEAD := Detached commit\<rparr>)"

record CommitOptions =
  All :: bool
  OptAuthor :: Signature

text \<open>
  Modelled from the spec: \<^verbatim>\<open>Worktree.Commit(msg, opts)\<close> belongs to go-git and is
  not in the sources. Following section 4.1, it creates a commit whose parent is the
  current HEAD (none when HEAD does not resolve), with the given author as author and
  committer and the given message, from the index; a commit with zero diff is allowed
  and produces an empty commit. The call is given no branch name: as in git, the new
  commit becomes the tip of the branch HEAD is on, or of HEAD itself when detached.
\<close>

definition Worktree_Commit :: "faults \<Rightarrow> Repository \<Rightarrow> string \<Rightarrow> CommitOptions \<Rightarrow> (error + hash) \<times> Repository" where
  "Worktree_Commit ft r msg opts =
     (case commit_fault ft of
        Some e \<Rightarrow> (Inl e, r)
      | None \<Rightarrow>
     (let parents = (case Repository_Head r of Inr head \<Rightarrow> [Hash head] | Inl e \<Rightarrow> []);
          r1 = (if All opts then autoAddModifiedAndDeleted r else r);
          commit = \<lparr>Author = OptAuthor opts, Committer = OptAuthor opts, Message = msg,
                    TreeHash = index r1, ParentHashes = parents\<rparr>;
          h = length (objects r1);
          r2 = r1\<lparr>objects := objects r1 @ [commit]\<rparr>
      in (Inr h, updateHEAD r2 h)))"

subsection \<open>Dagger values\<close>

text \<open>
  A \<^verbatim>\<open>Directory\<close> is an immutable snapshot; what matters of it here is the
  repository \<^verbatim>\<open>git.PlainOpen\<close> finds in it, if any. The local filesystem maps a
  path to the repository stored there.

  Modelled from the spec: \<^verbatim>\<open>Directory.Export\<close> belongs to the Dagger SDK and is
  not in the sources. Following section 3, a repository is opened once per operation
  from an exported snapshot of the caller-provided content: after the export the path
  holds the snapshot.
\<close>

type_synonym Directory = "Repository option"

type_synonym filesystem = "string \<Rightarrow> Repository option"

definition Directory_Export :: "faults \<Rightarrow> Directory \<Rightarrow> string \<Rightarrow> filesystem \<Rightarrow> error + filesystem" where
  "Directory_Export ft d path fs =
     (case export_fault ft of Some e \<Rightarrow> Inl e | None \<Rightarrow> Inr (fs(path := d)))"

definition PlainOpen :: "filesystem \<Rightarrow> string \<Rightarrow> error + Repository" where
  "PlainOpen fs path =
     (case fs path of None \<Rightarrow> Inl ErrRepositoryNotExists | Some r \<Rightarrow> Inr r)"

text \<open>A \<^verbatim>\<open>Secret\<close>: \<^verbatim>\<open>Plaintext(ctx)\<close> yields the token, or an error.\<close>

type_synonym Secret = "error + string"

definition Secret_Plaintext :: "Secret \<Rightarrow> error + string" where
  "Secret_Plaintext s = s"

subsection \<open>The module\<close>

record Gh =
  Owner :: string
  Repo :: string
  BaseBranch :: string
  Token :: Secret
  RepoPath :: Directory

text \<open>
  Both functions return their \<^verbatim>\<open>(string, error)\<close> together with the local
  filesystem they leave behind. In \<^verbatim>\<open>CreateLocalBranch\<close> the error of the
  checkout is assigned and then overwritten by the next call without being read.
\<close>

definition CreateLocalBranch :: "faults \<Rightarrow> Gh \<Rightarrow> string \<Rightarrow> filesystem \<Rightarrow> (error + string) \<times> filesystem" where
  "CreateLocalBranch ft m branchName fs =
     (let path = ''./'' @ Repo m in
      case Directory_Export ft (RepoPath m) path fs of
        Inl err \<Rightarrow> (Inl (Errorf_v ''failed to export repository: '' err), fs)
      | Inr fs1 \<Rightarrow>
     (case PlainOpen fs1 path of
        Inl err \<Rightarrow> (Inl (Errorf_v ''failed to open repository: '' err), fs1)
      | Inr gitRepo \<Rightarrow>
     (case Repository_Reference gitRepo (NewBranchReferenceName (BaseBranch m)) of
        Inl err \<Rightarrow> (Inl (Errorf_v ''failed to get reference: '' err), fs1)
      | Inr baseRef \<Rightarrow>
     (case Repository_Worktree gitRepo of
        Inl err \<Rightarrow> (Inl (Errorf_v ''failed to get worktree: '' err), fs1)
      | Inr wt \<Rightarrow>
     (let (err, gitRepo1) = Worktree_Checkout ft gitRepo (NewBranchReferenceName (BaseBranch m));
          fs2 = fs1(path := Some gitRepo1)
      in case Repository_Head gitRepo1 of
        Inl err \<Rightarrow> (Inl (Errorf_v ''failed to get HEAD: '' err), fs2)
      | Inr headRef \<Rightarrow>
     (let ref = NewHashReference (NewBranchReferenceName branchName) (Hash headRef)
      in case Storer_SetReference ft gitRepo1 ref of
        (Some err, gitRepo2) \<Rightarrow>
          (Inl (Errorf_v ''failed to set reference: '' err), fs2(path := Some gitRepo2))
      | (None, gitRepo2) \<Rightarrow>
          (Inr (''created local branch '' @ branchName), fs2(path := Some gitRepo2))))))))"

definition CommitChangesInNewBranch :: "faults \<Rightarrow> Gh \<Rightarrow> string \<Rightarrow> string \<Rightarrow> filesystem \<Rightarrow> (error + string) \<times> filesystem" where
  "CommitChangesInNewBranch ft m commitTitle branchName fs =
     (let path = ''./'' @ Repo m in
      case Directory_Export ft (RepoPath m) path fs of
        Inl err \<Rightarrow> (Inl (Errorf_v ''failed to export repository: '' err), fs)
      | Inr fs1 \<Rightarrow>
     (case PlainOpen fs1 path of
        Inl err \<Rightarrow> (Inl (Errorf_v ''failed to open repository: '' err), fs1)
      | Inr gitRepo \<Rightarrow>
     (case Repository_Head gitRepo of
        Inl err \<Rightarrow> (Inl (Errorf_v ''failed to get HEAD: '' err), fs1)
      | Inr headRef \<Rightarrow>
     (let ref = NewHashReference (NewBranchReferenceName branchName) (Hash headRef)
      in case Storer_SetReference ft gitRepo ref of
        (Some err, gitRepo1) \<Rightarrow>
          (Inl (Errorf_v ''failed to set reference: '' err), fs1(path := Some gitRepo1))
      | (None, gitRepo1) \<Rightarrow>
     (let fs2 = fs1(path := Some gitRepo1)
      in case Repository_Worktree gitRepo1 of
        Inl err \<Rightarrow> (Inl (Errorf_v ''failed to get worktree: '' err), fs2)
      | Inr wt \<Rightarrow>
     (case Worktree_Add ft gitRepo1 of
        (Some err, gitRepo2) \<Rightarrow>
          (Inl (Errorf_v ''failed to add changes: '' err), fs2(path := Some gitRepo2))
      | (None, gitRepo2) \<Rightarrow>
     (let cOpts = \<lparr>All = True,
                   OptAuthor = \<lparr>SigName = ''Dagger'', SigEmail = ''mihai.g@adoreme.com''\<rparr>\<rparr>
      in case Worktree_Commit ft gitRepo2 commitTitle cOpts of
        (Inl err, gitRepo3) \<Rightarrow>
          (Inl (Errorf_v ''failed to commit changes: '' err), fs2(path := Some gitRepo3))
      | (Inr commit, gitRepo3) \<Rightarrow>
          (Inr ''successfully committed changes'', fs2(path := Some gitRepo3)))))))))"

subsection \<open>Pull requests\<close>

text \<open>
  \<^verbatim>\<open>PullRequests.Create\<close> of go-github is a parameter. It returns a pull request,
  which the module discards, a pointer to the response, which is nil when no response
  was received, and an error. The response body is a reader; how \<^verbatim>\<open>%v\<close> prints a
  reader is a parameter as well.
\<close>

record NewPullRequest =
  Title :: string
  Head :: string
  Base :: string

datatype ReadCloser = ReadCloser string

record Response =
  Body :: ReadCloser

type_synonym pull_requests_create =
  "string \<Rightarrow> string \<Rightarrow> string \<Rightarrow> NewPullRequest \<Rightarrow> Response option \<times> error option"

definition CreatePullRequest :: "pull_requests_create \<Rightarrow> (ReadCloser \<Rightarrow> string) \<Rightarrow> Gh \<Rightarrow> string \<Rightarrow> string \<Rightarrow> string \<Rightarrow> (error + string) outcome" where
  "CreatePullRequest Create fmt_v m title newBranch baseBranch =
     (case Secret_Plaintext (Token m) of
        Inl err \<Rightarrow> Returns (Inl (Errorf_v ''failed to get token: '' err))
      | Inr token \<Rightarrow>
     (let baseBranch' = (if baseBranch = [] then BaseBranch m else baseBranch);
          newPR = \<lparr>Title = title, Head = newBranch, Base = baseBranch'\<rparr>
      in case Create token (Owner m) (Repo m) newPR of
        (rsp, Some err) \<Rightarrow>
          (case rsp of
             None \<Rightarrow> Panics ''runtime error: invalid memory address or nil pointer dereference''
           | Some response \<Rightarrow>
               Returns (Inl (ErrorString
                 (''failed to create pull request with error: '' @ Error err
                  @ ''.'' @ [CHR 0x0A] @ ''More details in response: ''
                  @ fmt_v (Body response)))))
      | (rsp, None) \<Rightarrow> Returns (Inr ''successfully created the pull request'')))"

section \<open>The istio module\<close>

text \<open>The struct \<^verbatim>\<open>IstioVersionCm\<close> with its nested anonymous structs.\<close>

record Annotations_struct =
  KustomizeToolkitFluxcdIoSsa :: string

record Metadata_struct =
  Name :: string
  Namespace :: string
  Annotations :: Annotations_struct

record Data_struct =
  Version :: string

record IstioVersionCm =
  APIVersion :: string
  Kind :: string
  Metadata :: Metadata_struct
  Data :: Data_struct

text \<open>
  A Dagger \<^verbatim>\<open>File\<close> as the module uses it: \<^verbatim>\<open>Contents(ctx)\<close> yields the text of
  the file, or an error.
\<close>

type_synonym File = "error + string"

definition Contents :: "File \<Rightarrow> error + string" where
  "Contents f = f"

record Istio =
  LatestVersion :: string
  LocalVersion :: string
  ConfigMap :: File

text \<open>
  The two libraries the module calls are outside the sources and are taken as
  parameters: \<^verbatim>\<open>semver.NewVersion\<close> with \<^verbatim>\<open>Version.Compare\<close> (package
  \<^verbatim>\<open>github.com/Masterminds/semver\<close>), over any type \<open>'v\<close> of parsed versions, and
  \<^verbatim>\<open>yaml.Unmarshal\<close> with \<^verbatim>\<open>yaml.Marshal\<close> (package \<^verbatim>\<open>gopkg.in/yaml.v2\<close>)
  at the type \<^verbatim>\<open>IstioVersionCm\<close>.
\<close>

record 'v Semver =
  NewVersion :: "string \<Rightarrow> error + 'v"
  Compare :: "'v \<Rightarrow> 'v \<Rightarrow> int"

record Yaml =
  Unmarshal :: "string \<Rightarrow> error + IstioVersionCm"
  Marshal :: "IstioVersionCm \<Rightarrow> error + string"

definition IsNewerVersion :: "'v Semver \<Rightarrow> Istio \<Rightarrow> error + bool" where
  "IsNewerVersion semver m =
     (case NewVersion semver (LatestVersion m) of
        Inl err \<Rightarrow> Inl (Errorf_w ''failed to parse latest version: '' err)
      | Inr latestVersion \<Rightarrow>
     (case NewVersion semver (LocalVersion m) of
        Inl err \<Rightarrow> Inl (Errorf_w ''failed to parse local version: '' err)
      | Inr localVersion \<Rightarrow>
          (let result = Compare semver latestVersion localVersion
           in if result > 0 then Inr True else Inr False)))"

text \<open>
  \<^verbatim>\<open>ReturnUpdatedCm\<close> returns its \<^verbatim>\<open>(string, error)\<close> together with the module
  value, whose \<^verbatim>\<open>ConfigMap\<close> the last step replaces.
\<close>

definition ReturnUpdatedCm :: "'v Semver \<Rightarrow> Yaml \<Rightarrow> Istio \<Rightarrow> (error + string) \<times> Istio" where
  "ReturnUpdatedCm semver yaml m =
     (case IsNewerVersion semver m of
        Inl err \<Rightarrow> (Inl (Errorf_w ''failed to check if newer version: '' err), m)
      | Inr isNewerVersion \<Rightarrow>
     if \<not> isNewerVersion
     then (Inr (''No update needed. Latest version is '' @ LatestVersion m), m)
     else
     (case Contents (ConfigMap m) of
        Inl err \<Rightarrow> (Inl (Errorf_w ''failed to read file contents: '' err), m)
      | Inr content \<Rightarrow>
     (case Unmarshal yaml content of
        Inl err \<Rightarrow> (Inl (Errorf_w ''failed to unmarshal yaml: '' err), m)
      | Inr iVersion \<Rightarrow>
     (let iVersion' = iVersion\<lparr>Data := (Data iVersion)\<lparr>Version := LatestVersion m\<rparr>\<rparr>
      in case Marshal yaml iVersion' of
        Inl err \<Rightarrow> (Inl (Errorf_w ''failed to marshal yaml: '' err), m)
      | Inr newContent \<Rightarrow> (Inr newContent, m\<lparr>ConfigMap := Inr newContent\<rparr>)))))"

text \<open>
  The older variant of the module reports the comparison as a string.
\<close>

definition CreateUpdatePR :: "'v Semver \<Rightarrow> Istio \<Rightarrow> string" where
  "CreateUpdatePR semver m =
     (case IsNewerVersion semver m of
        Inl err \<Rightarrow> ''Failed to check if newer version: '' @ Error err
      | Inr isNewerVersion \<Rightarrow> if isNewerVersion then ''Create PR'' else ''No PR needed'')"

subsection \<open>An instance of the two libraries, for evaluation\<close>

text \<open>
  Versions of the form \<^verbatim>\<open>[v]MAJOR[.MINOR[.PATCH]]\<close> in decimal digits, compared
  component by component. The library accepts pre-release and build suffixes as well;
  they are outside this instance, which serves only to run the module on concrete
  inputs.
\<close>

fun split_dots :: "string \<Rightarrow> string \<Rightarrow> string list" where
  "split_dots acc [] = [rev acc]"
| "split_dots acc (c # cs) =
     (if c = CHR ''.'' then rev acc # split_dots [] cs else split_dots (c # acc) cs)"

definition is_digit :: "char \<Rightarrow> bool" where
  "is_digit c = (48 \<le> (of_char c :: nat) \<and> (of_char c :: nat) \<le> 57)"

definition atoi :: "string \<Rightarrow> nat" where
  "atoi s = foldl (\<lambda>n c. 10 * n + (of_char c - 48)) 0 s"

definition ErrInvalidSemVer :: error where
  "ErrInvalidSemVer = ErrorString ''Invalid Semantic Version''"

definition numeric_NewVersion :: "string \<Rightarrow> error + nat \<times> nat \<times> nat" where
  "numeric_NewVersion s =
     (let body = (case s of c # cs \<Rightarrow> if c = CHR ''v'' then cs else s | [] \<Rightarrow> s);
          parts = split_dots [] body
      in if length parts \<le> 3 \<and> list_all (\<lambda>p. p \<noteq> [] \<and> list_all is_digit p) parts
         then (case map atoi parts of
                 [a] \<Rightarrow> Inr (a, 0, 0)
               | [a, b] \<Rightarrow> Inr (a, b, 0)
               | [a, b, c] \<Rightarrow> Inr (a, b, c)
               | _ \<Rightarrow> Inl ErrInvalidSemVer)
         else Inl ErrInvalidSemVer)"

definition compareSegment :: "nat \<Rightarrow> nat \<Rightarrow> int" where
  "compareSegment v o' = (if v < o' then - 1 else if v > o' then 1 else 0)"

definition numeric_Compare :: "nat \<times> nat \<times> nat \<Rightarrow> nat \<times> nat \<times> nat \<Rightarrow> int" where
  "numeric_Compare v o' =
     (case (v, o') of ((a, b, c), (a', b', c')) \<Rightarrow>
        if compareSegment a a' \<noteq> 0 then compareSegment a a'
        else if compareSegment b b' \<noteq> 0 then compareSegment b b'
        else compareSegment c c')"

definition numeric_semver :: "(nat \<times> nat \<times> nat) Semver" where
  "numeric_semver = \<lparr>NewVersion = numeric_NewVersion, Compare = numeric_Compare\<rparr>"

text \<open>
  A codec for the struct, one field per line in the order of the struct's fields.
\<close>

fun split_lines :: "string \<Rightarrow> string \<Rightarrow> string list" where
  "split_lines acc [] = [rev acc]"
| "split_lines acc (c # cs) =
     (if c = CHR 0x0A then rev acc # split_lines [] cs else split_lines (c # acc) cs)"

definition lines_Marshal :: "IstioVersionCm \<Rightarrow> error + string" where
  "lines_Marshal cm =
     Inr (APIVersion cm @ [CHR 0x0A] @ Kind cm @ [CHR 0x0A] @ Name (Metadata cm) @ [CHR 0x0A]
          @ Namespace (Metadata cm) @ [CHR 0x0A]
          @ KustomizeToolkitFluxcdIoSsa (Annotations (Metadata cm)) @ [CHR 0x0A]
          @ Version (Data cm))"

definition lines_Unmarshal :: "string \<Rightarrow> error + IstioVersionCm" where
  "lines_Unmarshal s =
     (case split_lines [] s of
        [a, k, n, ns, ssa, v] \<Rightarrow>
          Inr \<lparr>APIVersion = a, Kind = k,
               Metadata = \<lparr>Name = n, Namespace = ns,
                           Annotations = \<lparr>KustomizeToolkitFluxcdIoSsa = ssa\<rparr>\<rparr>,
               Data = \<lparr>Version = v\<rparr>\<rparr>
      | _ \<Rightarrow> Inl (ErrorString ''yaml: unmarshal errors''))"

definition lines_yaml :: Yaml where
  "lines_yaml = \<lparr>Unmarshal = lines_Unmarshal, Marshal = lines_Marshal\<rparr>"

section \<open>Concrete inputs\<close>

text \<open>
  A repository with one commit on \<^verbatim>\<open>main\<close> and a clean working tree; the same
  repository with a tracked file modified in the working tree and not staged; the
  module configured for a directory.
\<close>

definition initial_commit :: Commit where
  "initial_commit =
     \<lparr>Author = \<lparr>SigName = ''Dev'', SigEmail = ''dev@example.com''\<rparr>,
      Committer = \<lparr>SigName = ''Dev'', SigEmail = ''dev@example.com''\<rparr>,
      Message = ''initial commit'',
      TreeHash = [(''README.md'', ''hello''), (''istio-version.yaml'', ''1.1.9'')],
      ParentHashes = []\<rparr>"

definition clean_repo :: Repository where
  "clean_repo =
     \<lparr>refs = [(''refs/heads/main'', 0)], HEAD = OnBranch ''refs/heads/main'',
      objects = [initial_commit],
      index = [(''README.md'', ''hello''), (''istio-version.yaml'', ''1.1.9'')],
      worktree = [(''README.md'', ''hello''), (''istio-version.yaml'', ''1.1.9'')],
      bare = False\<rparr>"

definition dirty_repo :: Repository where
  "dirty_repo =
     \<lparr>refs = [(''refs/heads/main'', 0)], HEAD = OnBranch ''refs/heads/main'',
      objects = [initial_commit],
      index = [(''README.md'', ''hello''), (''istio-version.yaml'', ''1.1.9'')],
      worktree = [(''README.md'', ''hello''), (''istio-version.yaml'', ''1.2.0'')],
      bare = False\<rparr>"

text \<open>The clean repository after a branch \<^verbatim>\<open>feature-x\<close> was created at its only commit.\<close>

definition branched_repo :: Repository where
  "branched_repo = clean_repo\<lparr>refs := [(''refs/heads/main'', 0), (''refs/heads/feature-x'', 0)]\<rparr>"

definition gh_module :: "Directory \<Rightarrow> Gh" where
  "gh_module d =
     \<lparr>Owner = ''adore-me'', Repo = ''daggerverse'', BaseBranch = ''main'',
      Token = Inr ''token'', RepoPath = d\<rparr>"

definition empty_filesystem :: filesystem where
  "empty_filesystem = (\<lambda>path. None)"

text \<open>A version config map, and the istio module holding it with a newer release upstream.\<close>

definition version_cm :: "string \<Rightarrow> IstioVersionCm" where
  "version_cm v =
     \<lparr>APIVersion = ''v1'', Kind = ''ConfigMap'',
      Metadata = \<lparr>Name = ''istio-version'', Namespace = ''istio-system'',
                  Annotations = \<lparr>KustomizeToolkitFluxcdIoSsa = ''merge''\<rparr>\<rparr>,
      Data = \<lparr>Version = v\<rparr>\<rparr>"

definition version_cm_text :: "string \<Rightarrow> string" where
  "version_cm_text v =
     ''v1'' @ [CHR 0x0A] @ ''ConfigMap'' @ [CHR 0x0A] @ ''istio-version'' @ [CHR 0x0A]
     @ ''istio-system'' @ [CHR 0x0A] @ ''merge'' @ [CHR 0x0A] @ v"

definition istio_module :: "string \<Rightarrow> string \<Rightarrow> Istio" where
  "istio_module latest local =
     \<lparr>LatestVersion = latest, LocalVersion = local, ConfigMap = Inr (version_cm_text local)\<rparr>"

section \<open>Evaluation of the concrete inputs\<close>

lemma numeric_NewVersion_120: "NewVersion numeric_semver ''1.2.0'' = Inr (1, 2, 0)"
  by (simp add: numeric_semver_def numeric_NewVersion_def is_digit_def atoi_def)

lemma numeric_NewVersion_119: "NewVersion numeric_semver ''1.1.9'' = Inr (1, 1, 9)"
  by (simp add: numeric_semver_def numeric_NewVersion_def is_digit_def atoi_def)

lemma numeric_NewVersion_latest: "NewVersion numeric_semver ''latest'' = Inl ErrInvalidSemVer"
  by (simp add: numeric_semver_def numeric_NewVersion_def is_digit_def atoi_def)

lemma numeric_Compare_newer: "Compare numeric_semver (1, 2, 0) (1, 1, 9) = 1"
  by (simp add: numeric_semver_def numeric_Compare_def compareSegment_def)

lemma numeric_Compare_older: "Compare numeric_semver (1, 1, 9) (1, 2, 0) = - 1"
  by (simp add: numeric_semver_def numeric_Compare_def compareSegment_def)

lemma numeric_Compare_equal: "Compare numeric_semver (1, 2, 0) (1, 2, 0) = 0"
  by (simp add: numeric_semver_def numeric_Compare_def compareSegment_def)

lemma lines_Unmarshal_text:
  "Unmarshal lines_yaml (version_cm_text ''1.1.9'') = Inr (version_cm ''1.1.9'')"
  by (simp add: lines_yaml_def lines_Unmarshal_def version_cm_text_def version_cm_def)

lemma lines_Marshal_cm: "Marshal lines_yaml (version_cm v) = Inr (version_cm_text v)"
  by (simp add: lines_yaml_def lines_Marshal_def version_cm_text_def version_cm_def)

section \<open>The gh module: facts about the repository operations\<close>

lemma map_of_update_ref:
  "map_of (AList.update k v al) k' = (if k' = k then Some v else map_of al k')"
  by (simp add: update_conv')

lemma Repository_Head_after_set:
  assumes "Repository_Head r = Inr headRef"
  shows "\<exists>headRef'. Repository_Head (r\<lparr>refs := AList.update name (Hash headRef) (refs r)\<rparr>) = Inr headRef'
           \<and> Hash headRef' = Hash headRef"
  using assms
  by (auto simp: Repository_Head_def Repository_Reference_def map_of_update_ref
      split: head.splits option.splits)

lemma Worktree_Checkout_objects:
  "objects (snd (Worktree_Checkout ft r branch)) = objects r"
  by (simp add: Worktree_Checkout_def Let_def CommitObject_def split: option.splits)

lemma Worktree_Checkout_refs:
  "refs (snd (Worktree_Checkout ft r branch)) = refs r"
  by (simp add: Worktree_Checkout_def Let_def CommitObject_def split: option.splits)

lemma Worktree_Checkout_bare:
  "bare (snd (Worktree_Checkout ft r branch)) = bare r"
  by (simp add: Worktree_Checkout_def Let_def CommitObject_def split: option.splits)

lemma Worktree_Checkout_ok:
  assumes "fst (Worktree_Checkout ft r branch) = None"
  shows "HEAD (snd (Worktree_Checkout ft r branch)) = OnBranch branch"
  using assms
  by (auto simp: Worktree_Checkout_def Let_def CommitObject_def split: option.splits if_splits)

lemma Worktree_Checkout_clean_repo:
  "Worktree_Checkout no_faults clean_repo ''refs/heads/main'' = (None, clean_repo)"
  by (simp add: Worktree_Checkout_def no_faults_def clean_repo_def CommitObject_def Let_def
      initial_commit_def containsUnstagedChanges_def untracked_def)

lemma Worktree_Checkout_dirty_repo:
  "Worktree_Checkout no_faults dirty_repo ''refs/heads/main'' = (Some ErrUnstagedChanges, dirty_repo)"
  by (simp add: Worktree_Checkout_def no_faults_def dirty_repo_def CommitObject_def Let_def
      containsUnstagedChanges_def)

lemma CreateLocalBranch_clean_repo:
  "CreateLocalBranch no_faults (gh_module (Some clean_repo)) ''feature-x'' empty_filesystem
     = (Inr ''created local branch feature-x'',
        empty_filesystem(''./daggerverse'' :=
          Some (clean_repo\<lparr>refs := [(''refs/heads/main'', 0), (''refs/heads/feature-x'', 0)]\<rparr>)))"
  by (simp add: CreateLocalBranch_def Directory_Export_def PlainOpen_def gh_module_def
      Worktree_Checkout_def CommitObject_def Repository_Reference_def NewBranchReferenceName_def
      Repository_Worktree_def Repository_Head_def Storer_SetReference_def Let_def
      clean_repo_def initial_commit_def no_faults_def containsUnstagedChanges_def
      untracked_def)

lemma CreateLocalBranch_dirty_repo:
  "CreateLocalBranch no_faults (gh_module (Some dirty_repo)) ''feature-x'' empty_filesystem
     = (Inr ''created local branch feature-x'',
        empty_filesystem(''./daggerverse'' :=
          Some (dirty_repo\<lparr>refs := [(''refs/heads/main'', 0), (''refs/heads/feature-x'', 0)]\<rparr>)))"
  by (simp add: CreateLocalBranch_def Directory_Export_def PlainOpen_def gh_module_def
      Worktree_Checkout_def CommitObject_def Repository_Reference_def NewBranchReferenceName_def
      Repository_Worktree_def Repository_Head_def Storer_SetReference_def Let_def
      dirty_repo_def no_faults_def containsUnstagedChanges_def)

lemma fold_stage_unchanged:
  "set ps \<subseteq> fst ` set wt \<Longrightarrow>
     fold (\<lambda>p idx. case map_of wt p of None \<Rightarrow> AList.delete p idx
                    | Some c \<Rightarrow> AList.update p c idx) ps wt = wt"
proof (induction ps)
  case Nil
  then show ?case by simp
next
  case (Cons p ps)
  from Cons.prems have "p \<in> fst ` set wt" by simp
  then have "map_of wt p \<noteq> None" by (simp add: map_of_eq_None_iff)
  then obtain c where c: "map_of wt p = Some c" by auto
  then have "AList.update p c wt = wt"
    by (rule update_triv)
  with Cons c show ?case by simp
qed

lemma autoAddModifiedAndDeleted_clean:
  "index r = worktree r \<Longrightarrow> autoAddModifiedAndDeleted r = r"
  by (simp add: autoAddModifiedAndDeleted_def fold_stage_unchanged)

lemma Repository_Head_index [simp]:
  "Repository_Head (r\<lparr>index := t\<rparr>) = Repository_Head r"
  by (simp add: Repository_Head_def Repository_Reference_def split: head.splits)

text \<open>What a successful run of \<^verbatim>\<open>CommitChangesInNewBranch\<close> leaves behind.\<close>

lemma CommitChangesInNewBranch_success:
  assumes "CommitChangesInNewBranch ft m commitTitle branchName fs = (Inr msg, fs')"
  shows "\<exists>gitRepo headRef gitRepo1 headRef1.
           RepoPath m = Some gitRepo \<and>
           Repository_Head gitRepo = Inr headRef \<and>
           \<not> bare gitRepo \<and>
           gitRepo1 = gitRepo\<lparr>refs := AList.update (NewBranchReferenceName branchName) (Hash headRef) (refs gitRepo),
                             index := worktree gitRepo\<rparr> \<and>
           Repository_Head gitRepo1 = Inr headRef1 \<and> Hash headRef1 = Hash headRef \<and>
           fs' (''./'' @ Repo m) = Some (updateHEAD
              (gitRepo1\<lparr>objects := objects gitRepo @
                 [\<lparr>Author = \<lparr>SigName = ''Dagger'', SigEmail = ''mihai.g@adoreme.com''\<rparr>,
                   Committer = \<lparr>SigName = ''Dagger'', SigEmail = ''mihai.g@adoreme.com''\<rparr>,
                   Message = commitTitle, TreeHash = worktree gitRepo,
                   ParentHashes = [Hash headRef]\<rparr>]\<rparr>) (length (objects gitRepo))) \<and>
           msg = ''successfully committed changes''"
proof -
  let ?new = "NewBranchReferenceName branchName"
  from assms obtain gitRepo headRef where repo: "RepoPath m = Some gitRepo"
    and head: "Repository_Head gitRepo = Inr headRef" and nb: "\<not> bare gitRepo"
    by (auto simp: CommitChangesInNewBranch_def Directory_Export_def PlainOpen_def Let_def
        Storer_SetReference_def Repository_Worktree_def
        split: option.splits sum.splits prod.splits if_splits)
  let ?r1 = "gitRepo\<lparr>refs := AList.update ?new (Hash headRef) (refs gitRepo)\<rparr>"
  let ?r2 = "gitRepo\<lparr>refs := AList.update ?new (Hash headRef) (refs gitRepo), index := worktree gitRepo\<rparr>"
  from Repository_Head_after_set [OF head, of ?new] obtain headRef1 where
    head1: "Repository_Head ?r1 = Inr headRef1" and hash1: "Hash headRef1 = Hash headRef"
    by blast
  have head2: "Repository_Head ?r2 = Inr headRef1"
    using head1 Repository_Head_index [of "worktree gitRepo" ?r1] by simp
  have clean: "autoAddModifiedAndDeleted ?r2 = ?r2"
    by (rule autoAddModifiedAndDeleted_clean) simp
  from assms repo head nb have
    "fs' (''./'' @ Repo m) = Some (snd (Worktree_Commit ft ?r2 commitTitle
        \<lparr>All = True, OptAuthor = \<lparr>SigName = ''Dagger'', SigEmail = ''mihai.g@adoreme.com''\<rparr>\<rparr>))"
    and cf: "commit_fault ft = None"
    and msg: "msg = ''successfully committed changes''"
    by (auto simp: CommitChangesInNewBranch_def Directory_Export_def PlainOpen_def Let_def
        Storer_SetReference_def Repository_Worktree_def Worktree_Add_def Worktree_Commit_def
        split: option.splits sum.splits prod.splits if_splits)
  then have "fs' (''./'' @ Repo m) = Some (updateHEAD
              (?r2\<lparr>objects := objects gitRepo @
                 [\<lparr>Author = \<lparr>SigName = ''Dagger'', SigEmail = ''mihai.g@adoreme.com''\<rparr>,
                   Committer = \<lparr>SigName = ''Dagger'', SigEmail = ''mihai.g@adoreme.com''\<rparr>,
                   Message = commitTitle, TreeHash = worktree gitRepo,
                   ParentHashes = [Hash headRef]\<rparr>]\<rparr>) (length (objects gitRepo)))"
    using head2 hash1 clean by (simp add: Worktree_Commit_def Let_def)
  with repo head nb head2 hash1 msg show ?thesis by blast
qed


lemma objects_updateHEAD [simp]: "objects (updateHEAD r h) = objects r"
  by (simp add: updateHEAD_def split: head.splits)

lemma Worktree_Checkout_fault:
  "checkout_fault ft = Some e \<Longrightarrow> Worktree_Checkout ft r branch = (Some e, r)"
  by (simp add: Worktree_Checkout_def)

lemma Repository_Head_after_Checkout:
  "checkout_fault ft = None \<Longrightarrow> map_of (refs r) branch = Some c \<Longrightarrow>
     Repository_Head (snd (Worktree_Checkout ft r branch)) = Inr (NewHashReference branch c)"
  by (simp add: Worktree_Checkout_def Let_def CommitObject_def Repository_Head_def
      Repository_Reference_def split: option.splits)

lemma CreateLocalBranch_runs:
  assumes "export_fault ft = None" and "RepoPath m = Some r"
    and "map_of (refs r) (NewBranchReferenceName (BaseBranch m)) = Some c" and "\<not> bare r"
    and "Repository_Head (snd (Worktree_Checkout ft r (NewBranchReferenceName (BaseBranch m)))) = Inr headRef"
    and "set_reference_fault ft = None"
  shows "CreateLocalBranch ft m branchName fs =
           (Inr (''created local branch '' @ branchName),
            fs(''./'' @ Repo m := Some ((snd (Worktree_Checkout ft r (NewBranchReferenceName (BaseBranch m))))
              \<lparr>refs := AList.update (NewBranchReferenceName branchName) (Hash headRef)
                  (refs (snd (Worktree_Checkout ft r (NewBranchReferenceName (BaseBranch m)))))\<rparr>)))"
  using assms
  by (simp add: CreateLocalBranch_def Directory_Export_def PlainOpen_def Let_def
      Repository_Reference_def Repository_Worktree_def Storer_SetReference_def
      split_beta)

lemma CreateLocalBranch_success:
  assumes "CreateLocalBranch ft m branchName fs = (Inr msg, fs')"
  shows "\<exists>r c headRef. export_fault ft = None \<and> RepoPath m = Some r \<and>
           map_of (refs r) (NewBranchReferenceName (BaseBranch m)) = Some c \<and> \<not> bare r \<and>
           Repository_Head (snd (Worktree_Checkout ft r (NewBranchReferenceName (BaseBranch m)))) = Inr headRef \<and>
           set_reference_fault ft = None"
  using assms
  by (auto simp: CreateLocalBranch_def Directory_Export_def PlainOpen_def Let_def
      Repository_Reference_def Repository_Worktree_def Storer_SetReference_def
      split: option.splits sum.splits prod.splits if_splits)

lemma CommitChangesInNewBranch_runs:
  assumes "export_fault ft = None" and "set_reference_fault ft = None"
    and "add_fault ft = None" and "commit_fault ft = None"
    and "RepoPath m = Some gitRepo" and "\<not> bare gitRepo"
    and "Repository_Head gitRepo = Inr headRef"
  shows "\<exists>fs'. CommitChangesInNewBranch ft m commitTitle branchName fs
           = (Inr ''successfully committed changes'', fs')"
  using assms
  by (simp add: CommitChangesInNewBranch_def Directory_Export_def PlainOpen_def Let_def
      Storer_SetReference_def Repository_Worktree_def Worktree_Add_def Worktree_Commit_def)

lemma names_gh_module:
  "NewBranchReferenceName ''feature-x'' = ''refs/heads/feature-x''"
  "NewBranchReferenceName (BaseBranch (gh_module d)) = ''refs/heads/main''"
  "''./'' @ Repo (gh_module d) = ''./daggerverse''"
  "RepoPath (gh_module d) = d"
  "(gh_module d)\<lparr>RepoPath := d'\<rparr> = gh_module d'"
  by (simp_all add: gh_module_def NewBranchReferenceName_def)

lemma Repository_Head_clean_repo:
  "Repository_Head clean_repo = Inr (NewHashReference ''refs/heads/main'' 0)"
  by (simp add: Repository_Head_def Repository_Reference_def clean_repo_def)

lemma Repository_Head_dirty_repo:
  "Repository_Head dirty_repo = Inr (NewHashReference ''refs/heads/main'' 0)"
  by (simp add: Repository_Head_def Repository_Reference_def dirty_repo_def)

lemma CommitObject_clean_repo: "CommitObject clean_repo 0 = Some initial_commit"
  by (simp add: CommitObject_def clean_repo_def)

lemma CommitChangesInNewBranch_dirty_repo:
  "CommitChangesInNewBranch no_faults (gh_module (Some dirty_repo)) ''Update file'' ''feature-x''
     empty_filesystem
   = (Inr ''successfully committed changes'',
      empty_filesystem(''./daggerverse'' := Some
        \<lparr>refs = [(''refs/heads/main'', 1), (''refs/heads/feature-x'', 0)],
         HEAD = OnBranch ''refs/heads/main'',
         objects = [initial_commit,
           \<lparr>Author = \<lparr>SigName = ''Dagger'', SigEmail = ''mihai.g@adoreme.com''\<rparr>,
            Committer = \<lparr>SigName = ''Dagger'', SigEmail = ''mihai.g@adoreme.com''\<rparr>,
            Message = ''Update file'',
            TreeHash = [(''README.md'', ''hello''), (''istio-version.yaml'', ''1.2.0'')],
            ParentHashes = [0]\<rparr>],
         index = [(''README.md'', ''hello''), (''istio-version.yaml'', ''1.2.0'')],
         worktree = [(''README.md'', ''hello''), (''istio-version.yaml'', ''1.2.0'')],
         bare = False\<rparr>))"
  by (simp add: CommitChangesInNewBranch_def Directory_Export_def PlainOpen_def gh_module_def
      Repository_Head_def Repository_Reference_def NewBranchReferenceName_def
      Repository_Worktree_def Storer_SetReference_def Worktree_Add_def Worktree_Commit_def
      autoAddModifiedAndDeleted_def updateHEAD_def Let_def dirty_repo_def no_faults_def)

section \<open>The gh module: branch creation\<close>

text \<open>
  Claim C1. Whenever \<^verbatim>\<open>CreateLocalBranch\<close> returns without error, the directory
  held a repository, and the repository it leaves at the export path has the reference
  \<^verbatim>\<open>refs/heads/<branchName>\<close> pointing at the commit hash HEAD resolves to; when
  the checkout of the base branch succeeded, HEAD is on the base branch and that hash
  is the base branch's. Nothing is assumed about an earlier reference of that name, so
  one that existed is overwritten. The write is metadata only: the object store is the
  one the directory held, and every other reference keeps its value.
\<close>

theorem CreateLocalBranch_reference:
  assumes "CreateLocalBranch ft m branchName fs = (Inr msg, fs')"
  shows "\<exists>gitRepo gitRepo' headRef.
           RepoPath m = Some gitRepo \<and>
           fs' (''./'' @ Repo m) = Some gitRepo' \<and>
           Repository_Head gitRepo' = Inr headRef \<and>
           map_of (refs gitRepo') (NewBranchReferenceName branchName) = Some (Hash headRef) \<and>
           (fst (Worktree_Checkout ft gitRepo (NewBranchReferenceName (BaseBranch m))) = None \<longrightarrow>
              HEAD gitRepo' = OnBranch (NewBranchReferenceName (BaseBranch m)) \<and>
              map_of (refs gitRepo) (NewBranchReferenceName (BaseBranch m)) = Some (Hash headRef)) \<and>
           objects gitRepo' = objects gitRepo \<and>
           (\<forall>name. name \<noteq> NewBranchReferenceName branchName \<longrightarrow>
              map_of (refs gitRepo') name = map_of (refs gitRepo) name) \<and>
           msg = ''created local branch '' @ branchName"
proof -
  let ?path = "''./'' @ Repo m"
  let ?base = "NewBranchReferenceName (BaseBranch m)"
  let ?new = "NewBranchReferenceName branchName"
  from assms obtain gitRepo where repo: "RepoPath m = Some gitRepo"
    by (auto simp: CreateLocalBranch_def Directory_Export_def PlainOpen_def Let_def
        split: option.splits sum.splits)
  define gitRepo1 where "gitRepo1 = snd (Worktree_Checkout ft gitRepo ?base)"
  from assms repo obtain headRef where
    head: "Repository_Head gitRepo1 = Inr headRef"
    and fs': "fs' ?path = Some (gitRepo1\<lparr>refs := AList.update ?new (Hash headRef) (refs gitRepo1)\<rparr>)"
    and msg: "msg = ''created local branch '' @ branchName"
    by (auto simp: CreateLocalBranch_def Directory_Export_def PlainOpen_def Let_def gitRepo1_def
        Storer_SetReference_def
        split: option.splits sum.splits prod.splits)
  let ?r' = "gitRepo1\<lparr>refs := AList.update ?new (Hash headRef) (refs gitRepo1)\<rparr>"
  from Repository_Head_after_set [OF head, of ?new] obtain headRef' where
    head': "Repository_Head ?r' = Inr headRef'" and hash': "Hash headRef' = Hash headRef"
    by blast
  have new: "map_of (refs ?r') ?new = Some (Hash headRef')"
    by (simp add: map_of_update_ref hash')
  have objs: "objects ?r' = objects gitRepo"
    by (simp add: gitRepo1_def Worktree_Checkout_objects)
  have others: "\<forall>name. name \<noteq> ?new \<longrightarrow> map_of (refs ?r') name = map_of (refs gitRepo) name"
    by (simp add: map_of_update_ref gitRepo1_def Worktree_Checkout_refs)
  have base: "fst (Worktree_Checkout ft gitRepo ?base) = None \<longrightarrow>
      HEAD ?r' = OnBranch ?base \<and> map_of (refs gitRepo) ?base = Some (Hash headRef')"
  proof
    assume "fst (Worktree_Checkout ft gitRepo ?base) = None"
    then have h: "HEAD gitRepo1 = OnBranch ?base"
      unfolding gitRepo1_def by (rule Worktree_Checkout_ok)
    have "refs gitRepo1 = refs gitRepo"
      by (simp add: gitRepo1_def Worktree_Checkout_refs)
    with head h have "map_of (refs gitRepo) ?base = Some (Hash headRef)"
      by (auto simp: Repository_Head_def Repository_Reference_def split: option.splits)
    with h hash' show "HEAD ?r' = OnBranch ?base \<and> map_of (refs gitRepo) ?base = Some (Hash headRef')"
      by simp
  qed
  show ?thesis
  proof (intro exI conjI)
    show "RepoPath m = Some gitRepo" by (rule repo)
    show "fs' ?path = Some ?r'" by (rule fs')
    show "Repository_Head ?r' = Inr headRef'" by (rule head')
    show "map_of (refs ?r') ?new = Some (Hash headRef')" by (rule new)
    show "fst (Worktree_Checkout ft gitRepo ?base) = None \<longrightarrow>
      HEAD ?r' = OnBranch ?base \<and> map_of (refs gitRepo) ?base = Some (Hash headRef')"
      by (rule base)
    show "objects ?r' = objects gitRepo" by (rule objs)
    show "\<forall>name. name \<noteq> ?new \<longrightarrow> map_of (refs ?r') name = map_of (refs gitRepo) name"
      by (rule others)
    show "msg = ''created local branch '' @ branchName" by (rule msg)
  qed
qed

theorem CreateLocalBranch_reference_witness:
  "\<exists>gitRepo' headRef.
     snd (CreateLocalBranch no_faults (gh_module (Some clean_repo)) ''feature-x'' empty_filesystem)
       ''./daggerverse'' = Some gitRepo' \<and>
     fst (CreateLocalBranch no_faults (gh_module (Some clean_repo)) ''feature-x'' empty_filesystem)
       = Inr ''created local branch feature-x'' \<and>
     Repository_Head gitRepo' = Inr headRef \<and>
     map_of (refs gitRepo') ''refs/heads/feature-x'' = Some (Hash headRef) \<and>
     map_of (refs clean_repo) ''refs/heads/main'' = Some (Hash headRef) \<and>
     HEAD gitRepo' = OnBranch ''refs/heads/main'' \<and>
     objects gitRepo' = objects clean_repo \<and>
     map_of (refs gitRepo') ''refs/heads/main'' = map_of (refs clean_repo) ''refs/heads/main''"
proof -
  let ?m = "gh_module (Some clean_repo)"
  let ?run = "CreateLocalBranch no_faults ?m ''feature-x'' empty_filesystem"
  have run: "?run = (Inr ''created local branch feature-x'', snd ?run)"
    by (simp add: CreateLocalBranch_clean_repo)
  have checkout: "fst (Worktree_Checkout no_faults clean_repo (NewBranchReferenceName (BaseBranch ?m))) = None"
    by (simp add: gh_module_def NewBranchReferenceName_def Worktree_Checkout_clean_repo)
  have names: "NewBranchReferenceName ''feature-x'' = ''refs/heads/feature-x''"
    "NewBranchReferenceName (BaseBranch ?m) = ''refs/heads/main''"
    "''./'' @ Repo ?m = ''./daggerverse''" "RepoPath ?m = Some clean_repo"
    by (simp_all add: gh_module_def NewBranchReferenceName_def)
  have result: "fst ?run = Inr ''created local branch feature-x''"
    by (simp add: CreateLocalBranch_clean_repo)
  from CreateLocalBranch_reference [OF run] checkout result show ?thesis
    unfolding names by auto
qed

text \<open>
  Claim C6. If \<^verbatim>\<open>CreateLocalBranch\<close> succeeds, a second application with the same
  base branch and branch name succeeds too and leaves \<^verbatim>\<open>refs/heads/<branchName>\<close>
  at the same hash, both when it runs on the same directory again and when it runs on
  a directory holding the repository the first application left behind.
\<close>

theorem CreateLocalBranch_idempotent:
  assumes "CreateLocalBranch ft m branchName fs = (Inr msg, fs1)"
  shows "\<exists>h gitRepo1 fs2 gitRepo2 fs3 gitRepo3.
           fs1 (''./'' @ Repo m) = Some gitRepo1 \<and>
           map_of (refs gitRepo1) (NewBranchReferenceName branchName) = Some h \<and>
           CreateLocalBranch ft m branchName fs1 = (Inr msg, fs2) \<and>
           fs2 (''./'' @ Repo m) = Some gitRepo2 \<and>
           map_of (refs gitRepo2) (NewBranchReferenceName branchName) = Some h \<and>
           CreateLocalBranch ft (m\<lparr>RepoPath := Some gitRepo1\<rparr>) branchName fs1 = (Inr msg, fs3) \<and>
           fs3 (''./'' @ Repo m) = Some gitRepo3 \<and>
           map_of (refs gitRepo3) (NewBranchReferenceName branchName) = Some h"
proof -
  let ?path = "''./'' @ Repo m"
  let ?base = "NewBranchReferenceName (BaseBranch m)"
  let ?new = "NewBranchReferenceName branchName"
  from CreateLocalBranch_success [OF assms] obtain r c headRef where
    ex: "export_fault ft = None" and repo: "RepoPath m = Some r"
    and c: "map_of (refs r) ?base = Some c" and nb: "\<not> bare r"
    and head: "Repository_Head (snd (Worktree_Checkout ft r ?base)) = Inr headRef"
    and sr: "set_reference_fault ft = None"
    by blast
  define r1 where "r1 = snd (Worktree_Checkout ft r ?base)"
  define h where "h = Hash headRef"
  define r' where "r' = r1\<lparr>refs := AList.update ?new h (refs r1)\<rparr>"
  have refs1: "refs r1 = refs r" and bare1: "bare r1 = bare r"
    by (simp_all add: r1_def Worktree_Checkout_refs Worktree_Checkout_bare)
  have run: "CreateLocalBranch ft m branchName fs0 =
      (Inr (''created local branch '' @ branchName), fs0(?path := Some r'))" for fs0
    using CreateLocalBranch_runs [OF ex repo c nb head sr] by (simp add: r'_def r1_def h_def)
  from assms run [of fs] have msg: "msg = ''created local branch '' @ branchName"
    and fs1: "fs1 = fs(?path := Some r')"
    by simp_all
  have new: "map_of (refs r') ?new = Some h"
    by (simp add: r'_def map_of_update_ref)
  \<comment> \<open>the second run on the directory that holds the repository the first run left\<close>
  let ?m' = "m\<lparr>RepoPath := Some r'\<rparr>"
  have c': "map_of (refs r') ?base = Some (if ?base = ?new then h else c)"
    by (simp add: r'_def map_of_update_ref refs1 c)
  have nb': "\<not> bare r'"
    by (simp add: r'_def bare1 nb)
  have head': "\<exists>headRef'. Repository_Head (snd (Worktree_Checkout ft r' ?base)) = Inr headRef'
      \<and> Hash headRef' = h"
  proof (cases "checkout_fault ft")
    case None
    from Repository_Head_after_Checkout [OF None c] head have "h = c"
      by (simp add: h_def)
    with Repository_Head_after_Checkout [OF None c'] show ?thesis by simp
  next
    case (Some e)
    then have same: "r1 = r" "snd (Worktree_Checkout ft r' ?base) = r'"
      by (simp_all add: r1_def Worktree_Checkout_fault)
    from head have "Repository_Head r1 = Inr headRef" by (simp add: r1_def)
    from Repository_Head_after_set [OF this, of ?new]
    have "\<exists>headRef'. Repository_Head r' = Inr headRef' \<and> Hash headRef' = h"
      by (simp add: r'_def h_def)
    then show ?thesis by (simp only: same)
  qed
  then obtain headRef' where head2: "Repository_Head (snd (Worktree_Checkout ft r' ?base)) = Inr headRef'"
    and hash2: "Hash headRef' = h" by blast
  define r'' where "r'' = (snd (Worktree_Checkout ft r' ?base))
      \<lparr>refs := AList.update ?new h (refs (snd (Worktree_Checkout ft r' ?base)))\<rparr>"
  have run': "CreateLocalBranch ft ?m' branchName fs1 =
      (Inr (''created local branch '' @ branchName), fs1(?path := Some r''))"
    using CreateLocalBranch_runs [of ft ?m' r', OF ex _ _ nb' _ sr, of _ headRef' branchName fs1]
      c' head2 hash2 by (simp add: r''_def)
  have new'': "map_of (refs r'') ?new = Some h"
    by (simp add: r''_def map_of_update_ref)
  show ?thesis
  proof (intro exI conjI)
    show "fs1 ?path = Some r'" by (simp add: fs1)
    show "map_of (refs r') ?new = Some h" by (rule new)
    show "CreateLocalBranch ft m branchName fs1 = (Inr msg, fs1(?path := Some r'))"
      by (simp add: run msg)
    show "(fs1(?path := Some r')) ?path = Some r'" by simp
    show "map_of (refs r') ?new = Some h" by (rule new)
    show "CreateLocalBranch ft ?m' branchName fs1 = (Inr msg, fs1(?path := Some r''))"
      by (simp add: run' msg)
    show "(fs1(?path := Some r'')) ?path = Some r''" by simp
    show "map_of (refs r'') ?new = Some h" by (rule new'')
  qed
qed

theorem CreateLocalBranch_idempotent_witness:
  "\<exists>fs2 gitRepo2 fs3 gitRepo3.
     CreateLocalBranch no_faults (gh_module (Some clean_repo)) ''feature-x''
       (empty_filesystem(''./daggerverse'' := Some branched_repo))
       = (Inr ''created local branch feature-x'', fs2) \<and>
     fs2 ''./daggerverse'' = Some gitRepo2 \<and>
     map_of (refs gitRepo2) ''refs/heads/feature-x'' = Some 0 \<and>
     CreateLocalBranch no_faults (gh_module (Some branched_repo)) ''feature-x''
       (empty_filesystem(''./daggerverse'' := Some branched_repo))
       = (Inr ''created local branch feature-x'', fs3) \<and>
     fs3 ''./daggerverse'' = Some gitRepo3 \<and>
     map_of (refs gitRepo3) ''refs/heads/feature-x'' = Some 0"
proof -
  have run: "CreateLocalBranch no_faults (gh_module (Some clean_repo)) ''feature-x'' empty_filesystem
     = (Inr ''created local branch feature-x'',
        empty_filesystem(''./daggerverse'' := Some branched_repo))"
    by (simp add: CreateLocalBranch_clean_repo branched_repo_def)
  have ref: "map_of (refs branched_repo) ''refs/heads/feature-x'' = Some 0"
    by (simp add: branched_repo_def)
  from CreateLocalBranch_idempotent [OF run] ref show ?thesis
    unfolding names_gh_module by auto
qed

text \<open>
  Claim C5. The error of the checkout does not reach the caller. On the repository
  whose working tree has a tracked file modified and not staged, the checkout of the
  base branch
  fails with \<^verbatim>\<open>ErrUnstagedChanges\<close> and \<^verbatim>\<open>CreateLocalBranch\<close> returns
  "created local branch feature-x" with a nil error; the same happens when the checkout
  fails on the clean repository for a reason of the disk.
\<close>

theorem CreateLocalBranch_checkout_error_unreported:
  "fst (Worktree_Checkout no_faults dirty_repo ''refs/heads/main'') = Some ErrUnstagedChanges \<and>
   fst (CreateLocalBranch no_faults (gh_module (Some dirty_repo)) ''feature-x'' empty_filesystem)
     = Inr ''created local branch feature-x'' \<and>
   fst (Worktree_Checkout (no_faults\<lparr>checkout_fault := Some (ErrorString ''permission denied'')\<rparr>)
          clean_repo ''refs/heads/main'') = Some (ErrorString ''permission denied'') \<and>
   fst (CreateLocalBranch (no_faults\<lparr>checkout_fault := Some (ErrorString ''permission denied'')\<rparr>)
          (gh_module (Some clean_repo)) ''feature-x'' empty_filesystem)
     = Inr ''created local branch feature-x''"
  by (simp add: Worktree_Checkout_dirty_repo CreateLocalBranch_dirty_repo Worktree_Checkout_fault)
    (simp add: CreateLocalBranch_def Directory_Export_def PlainOpen_def gh_module_def
      Worktree_Checkout_def Repository_Reference_def NewBranchReferenceName_def
      Repository_Worktree_def Repository_Head_def Storer_SetReference_def Let_def
      clean_repo_def no_faults_def)

section \<open>The gh module: committing\<close>

text \<open>
  Claim C3. Whenever \<^verbatim>\<open>CommitChangesInNewBranch\<close> returns without error, it has
  added exactly one commit to the object store, and the only parent of that commit is
  the hash HEAD resolved to when the function read it, before the commit was made.
  The commit carries the given title and the fixed author.
\<close>

theorem CommitChangesInNewBranch_parent:
  assumes "CommitChangesInNewBranch ft m commitTitle branchName fs = (Inr msg, fs')"
  shows "\<exists>gitRepo headRef gitRepo' commit.
           RepoPath m = Some gitRepo \<and>
           Repository_Head gitRepo = Inr headRef \<and>
           fs' (''./'' @ Repo m) = Some gitRepo' \<and>
           objects gitRepo' = objects gitRepo @ [commit] \<and>
           CommitObject gitRepo' (length (objects gitRepo)) = Some commit \<and>
           ParentHashes commit = [Hash headRef] \<and>
           Message commit = commitTitle \<and>
           Author commit = \<lparr>SigName = ''Dagger'', SigEmail = ''mihai.g@adoreme.com''\<rparr>"
proof -
  from CommitChangesInNewBranch_success [OF assms] obtain gitRepo headRef gitRepo1 where
    repo: "RepoPath m = Some gitRepo" and head: "Repository_Head gitRepo = Inr headRef"
    and fs': "fs' (''./'' @ Repo m) = Some (updateHEAD
              (gitRepo1\<lparr>objects := objects gitRepo @
                 [\<lparr>Author = \<lparr>SigName = ''Dagger'', SigEmail = ''mihai.g@adoreme.com''\<rparr>,
                   Committer = \<lparr>SigName = ''Dagger'', SigEmail = ''mihai.g@adoreme.com''\<rparr>,
                   Message = commitTitle, TreeHash = worktree gitRepo,
                   ParentHashes = [Hash headRef]\<rparr>]\<rparr>) (length (objects gitRepo)))"
    by blast
  let ?commit = "\<lparr>Author = \<lparr>SigName = ''Dagger'', SigEmail = ''mihai.g@adoreme.com''\<rparr>,
                   Committer = \<lparr>SigName = ''Dagger'', SigEmail = ''mihai.g@adoreme.com''\<rparr>,
                   Message = commitTitle, TreeHash = worktree gitRepo,
                   ParentHashes = [Hash headRef]\<rparr>"
  let ?r' = "updateHEAD (gitRepo1\<lparr>objects := objects gitRepo @ [?commit]\<rparr>) (length (objects gitRepo))"
  show ?thesis
  proof (intro exI conjI)
    show "RepoPath m = Some gitRepo" by (rule repo)
    show "Repository_Head gitRepo = Inr headRef" by (rule head)
    show "fs' (''./'' @ Repo m) = Some ?r'" by (rule fs')
    show "objects ?r' = objects gitRepo @ [?commit]" by simp
    show "CommitObject ?r' (length (objects gitRepo)) = Some ?commit"
      by (simp add: CommitObject_def)
    show "ParentHashes ?commit = [Hash headRef]" by simp
    show "Message ?commit = commitTitle" by simp
    show "Author ?commit = \<lparr>SigName = ''Dagger'', SigEmail = ''mihai.g@adoreme.com''\<rparr>" by simp
  qed
qed

theorem CommitChangesInNewBranch_parent_witness:
  "\<exists>gitRepo' commit.
     snd (CommitChangesInNewBranch no_faults (gh_module (Some dirty_repo)) ''Update file''
            ''feature-x'' empty_filesystem) ''./daggerverse'' = Some gitRepo' \<and>
     fst (CommitChangesInNewBranch no_faults (gh_module (Some dirty_repo)) ''Update file''
            ''feature-x'' empty_filesystem) = Inr ''successfully committed changes'' \<and>
     Repository_Head dirty_repo = Inr (NewHashReference ''refs/heads/main'' 0) \<and>
     objects gitRepo' = objects dirty_repo @ [commit] \<and>
     CommitObject gitRepo' 1 = Some commit \<and>
     ParentHashes commit = [0] \<and>
     Message commit = ''Update file''"
proof -
  let ?run = "CommitChangesInNewBranch no_faults (gh_module (Some dirty_repo)) ''Update file''
            ''feature-x'' empty_filesystem"
  have run: "?run = (Inr ''successfully committed changes'', snd ?run)"
    by (simp add: CommitChangesInNewBranch_dirty_repo)
  have result: "fst ?run = Inr ''successfully committed changes''"
    by (simp add: CommitChangesInNewBranch_dirty_repo)
  have len: "length (objects dirty_repo) = 1"
    by (simp add: dirty_repo_def)
  from CommitChangesInNewBranch_parent [OF run] result Repository_Head_dirty_repo len
  show ?thesis
    unfolding names_gh_module by auto
qed

text \<open>
  Claim C4. On a repository whose working tree equals the tree of the HEAD commit, and
  with no call failing, \<^verbatim>\<open>CommitChangesInNewBranch\<close> succeeds: the function has no
  check that skips an empty commit. The commit it creates has the HEAD commit as its
  parent and the same tree hash as that parent.
\<close>

theorem CommitChangesInNewBranch_empty_commit:
  assumes "export_fault ft = None" and "set_reference_fault ft = None"
    and "add_fault ft = None" and "commit_fault ft = None"
    and "RepoPath m = Some gitRepo" and "\<not> bare gitRepo"
    and "Repository_Head gitRepo = Inr headRef"
    and "CommitObject gitRepo (Hash headRef) = Some parent"
    and "worktree gitRepo = TreeHash parent"
  shows "\<exists>fs' gitRepo' commit.
           CommitChangesInNewBranch ft m commitTitle branchName fs
             = (Inr ''successfully committed changes'', fs') \<and>
           fs' (''./'' @ Repo m) = Some gitRepo' \<and>
           objects gitRepo' = objects gitRepo @ [commit] \<and>
           CommitObject gitRepo' (length (objects gitRepo)) = Some commit \<and>
           ParentHashes commit = [Hash headRef] \<and>
           CommitObject gitRepo' (Hash headRef) = Some parent \<and>
           TreeHash commit = TreeHash parent"
proof -
  from CommitChangesInNewBranch_runs [OF assms(1-7)] obtain fs' where
    run: "CommitChangesInNewBranch ft m commitTitle branchName fs
            = (Inr ''successfully committed changes'', fs')"
    by blast
  from CommitChangesInNewBranch_success [OF run] assms(5,7) obtain gitRepo1 where
    fs': "fs' (''./'' @ Repo m) = Some (updateHEAD
              (gitRepo1\<lparr>objects := objects gitRepo @
                 [\<lparr>Author = \<lparr>SigName = ''Dagger'', SigEmail = ''mihai.g@adoreme.com''\<rparr>,
                   Committer = \<lparr>SigName = ''Dagger'', SigEmail = ''mihai.g@adoreme.com''\<rparr>,
                   Message = commitTitle, TreeHash = worktree gitRepo,
                   ParentHashes = [Hash headRef]\<rparr>]\<rparr>) (length (objects gitRepo)))"
    by auto
  let ?commit = "\<lparr>Author = \<lparr>SigName = ''Dagger'', SigEmail = ''mihai.g@adoreme.com''\<rparr>,
                   Committer = \<lparr>SigName = ''Dagger'', SigEmail = ''mihai.g@adoreme.com''\<rparr>,
                   Message = commitTitle, TreeHash = worktree gitRepo,
                   ParentHashes = [Hash headRef]\<rparr>"
  let ?r' = "updateHEAD (gitRepo1\<lparr>objects := objects gitRepo @ [?commit]\<rparr>) (length (objects gitRepo))"
  from assms(8) have old: "Hash headRef < length (objects gitRepo)"
    and parent: "objects gitRepo ! Hash headRef = parent"
    by (auto simp: CommitObject_def split: if_splits)
  show ?thesis
  proof (intro exI conjI)
    show "CommitChangesInNewBranch ft m commitTitle branchName fs
            = (Inr ''successfully committed changes'', fs')" by (rule run)
    show "fs' (''./'' @ Repo m) = Some ?r'" by (rule fs')
    show "objects ?r' = objects gitRepo @ [?commit]" by simp
    show "CommitObject ?r' (length (objects gitRepo)) = Some ?commit"
      by (simp add: CommitObject_def)
    show "ParentHashes ?commit = [Hash headRef]" by simp
    show "CommitObject ?r' (Hash headRef) = Some parent"
      using old parent by (simp add: CommitObject_def nth_append)
    show "TreeHash ?commit = TreeHash parent" by (simp add: assms(9))
  qed
qed

theorem CommitChangesInNewBranch_empty_commit_witness:
  "\<exists>fs' gitRepo' commit.
     CommitChangesInNewBranch no_faults (gh_module (Some clean_repo)) ''Update file''
       ''feature-x'' empty_filesystem = (Inr ''successfully committed changes'', fs') \<and>
     fs' ''./daggerverse'' = Some gitRepo' \<and>
     objects gitRepo' = objects clean_repo @ [commit] \<and>
     CommitObject gitRepo' 1 = Some commit \<and>
     ParentHashes commit = [0] \<and>
     CommitObject gitRepo' 0 = Some initial_commit \<and>
     TreeHash commit = TreeHash initial_commit"
proof -
  have faults: "export_fault no_faults = None" "set_reference_fault no_faults = None"
    "add_fault no_faults = None" "commit_fault no_faults = None"
    by (simp_all add: no_faults_def)
  have repo: "RepoPath (gh_module (Some clean_repo)) = Some clean_repo"
    by (simp add: gh_module_def)
  have nb: "\<not> bare clean_repo"
    by (simp add: clean_repo_def)
  have parent: "CommitObject clean_repo (Hash (NewHashReference ''refs/heads/main'' 0)) = Some initial_commit"
    by (simp add: CommitObject_clean_repo)
  have clean: "worktree clean_repo = TreeHash initial_commit"
    by (simp add: clean_repo_def initial_commit_def)
  have len: "length (objects clean_repo) = 1"
    by (simp add: clean_repo_def)
  from CommitChangesInNewBranch_empty_commit [OF faults repo nb Repository_Head_clean_repo parent clean,
      of "''Update file''" "''feature-x''" empty_filesystem] len
  show ?thesis
    unfolding names_gh_module by auto
qed

text \<open>
  Claim C2. On the repository with HEAD on \<^verbatim>\<open>main\<close> at commit 0,
  \<^verbatim>\<open>CommitChangesInNewBranch\<close> with branch name \<^verbatim>\<open>feature-x\<close> succeeds and
  creates commit 1; afterwards \<^verbatim>\<open>refs/heads/feature-x\<close> still points at commit 0,
  the hash HEAD had before the commit, and it is \<^verbatim>\<open>refs/heads/main\<close>, the branch
  HEAD is on, that points at the new commit.
\<close>

theorem CommitChangesInNewBranch_branch_stays_behind:
  "Repository_Head dirty_repo = Inr (NewHashReference ''refs/heads/main'' 0) \<and>
   fst (CommitChangesInNewBranch no_faults (gh_module (Some dirty_repo)) ''Update file''
          ''feature-x'' empty_filesystem) = Inr ''successfully committed changes'' \<and>
   map_option (\<lambda>r. (length (objects r), map_of (refs r) ''refs/heads/feature-x'',
                     map_of (refs r) ''refs/heads/main'', HEAD r))
     (snd (CommitChangesInNewBranch no_faults (gh_module (Some dirty_repo)) ''Update file''
             ''feature-x'' empty_filesystem) ''./daggerverse'')
     = Some (2, Some 0, Some 1, OnBranch ''refs/heads/main'')"
  by (simp add: Repository_Head_dirty_repo CommitChangesInNewBranch_dirty_repo)

section \<open>The gh module: pull requests\<close>

text \<open>
  Claim C9. When the call that creates the pull request fails without a response, as it
  does when the request never reaches the server, \<^verbatim>\<open>CreatePullRequest\<close> reads the
  body of a nil response and panics: it returns no error at all.
\<close>

theorem CreatePullRequest_without_response_panics:
  "CreatePullRequest
     (\<lambda>token owner repo newPR. (None, Some (ErrorString ''dial tcp: connection refused'')))
     (\<lambda>body. ''{}'') (gh_module None) ''New PR'' ''feature-x'' []
   = Panics ''runtime error: invalid memory address or nil pointer dereference''"
  by (simp add: CreatePullRequest_def Secret_Plaintext_def gh_module_def)

section \<open>The istio module: version comparison and the rewritten config map\<close>

text \<open>
  Claim C7. \<^verbatim>\<open>IsNewerVersion\<close> returns true exactly when both version strings
  parse and the latest version compares strictly greater than the local one; it
  returns false exactly when both parse and the latest compares equal or smaller, so
  in particular when the two are equal; and when either string fails to parse it
  returns an error that wraps the parser's error, the latest version being parsed
  first.
\<close>

theorem IsNewerVersion_cases:
  "(IsNewerVersion sv m = Inr True \<longleftrightarrow>
      (\<exists>a b. NewVersion sv (LatestVersion m) = Inr a \<and> NewVersion sv (LocalVersion m) = Inr b
             \<and> 0 < Compare sv a b)) \<and>
   (IsNewerVersion sv m = Inr False \<longleftrightarrow>
      (\<exists>a b. NewVersion sv (LatestVersion m) = Inr a \<and> NewVersion sv (LocalVersion m) = Inr b
             \<and> Compare sv a b \<le> 0)) \<and>
   (\<forall>e. NewVersion sv (LatestVersion m) = Inl e \<longrightarrow>
      IsNewerVersion sv m = Inl (Errorf_w ''failed to parse latest version: '' e)) \<and>
   (\<forall>a e. NewVersion sv (LatestVersion m) = Inr a \<and> NewVersion sv (LocalVersion m) = Inl e \<longrightarrow>
      IsNewerVersion sv m = Inl (Errorf_w ''failed to parse local version: '' e))"
  by (auto simp: IsNewerVersion_def Let_def split: sum.splits)

theorem IsNewerVersion_cases_witness:
  "IsNewerVersion numeric_semver
     \<lparr>LatestVersion = ''1.2.0'', LocalVersion = ''1.1.9'', ConfigMap = Inr []\<rparr> = Inr True \<and>
   IsNewerVersion numeric_semver
     \<lparr>LatestVersion = ''1.2.0'', LocalVersion = ''1.2.0'', ConfigMap = Inr []\<rparr> = Inr False \<and>
   IsNewerVersion numeric_semver
     \<lparr>LatestVersion = ''latest'', LocalVersion = ''1.2.0'', ConfigMap = Inr []\<rparr>
     = Inl (Errorf_w ''failed to parse latest version: '' ErrInvalidSemVer) \<and>
   IsNewerVersion numeric_semver
     \<lparr>LatestVersion = ''1.2.0'', LocalVersion = ''latest'', ConfigMap = Inr []\<rparr>
     = Inl (Errorf_w ''failed to parse local version: '' ErrInvalidSemVer)"
proof -
  let ?newer = "\<lparr>LatestVersion = ''1.2.0'', LocalVersion = ''1.1.9'', ConfigMap = Inr []\<rparr>"
  let ?equal = "\<lparr>LatestVersion = ''1.2.0'', LocalVersion = ''1.2.0'', ConfigMap = Inr []\<rparr>"
  let ?bad1 = "\<lparr>LatestVersion = ''latest'', LocalVersion = ''1.2.0'', ConfigMap = Inr []\<rparr>"
  let ?bad2 = "\<lparr>LatestVersion = ''1.2.0'', LocalVersion = ''latest'', ConfigMap = Inr []\<rparr>"
  have "IsNewerVersion numeric_semver ?newer = Inr True"
    using IsNewerVersion_cases [of numeric_semver ?newer]
      numeric_NewVersion_120 numeric_NewVersion_119 numeric_Compare_newer by simp
  moreover have "IsNewerVersion numeric_semver ?equal = Inr False"
    using IsNewerVersion_cases [of numeric_semver ?equal]
      numeric_NewVersion_120 numeric_Compare_equal by simp
  moreover have "IsNewerVersion numeric_semver ?bad1
      = Inl (Errorf_w ''failed to parse latest version: '' ErrInvalidSemVer)"
    using IsNewerVersion_cases [of numeric_semver ?bad1] numeric_NewVersion_latest by simp
  moreover have "IsNewerVersion numeric_semver ?bad2
      = Inl (Errorf_w ''failed to parse local version: '' ErrInvalidSemVer)"
    using IsNewerVersion_cases [of numeric_semver ?bad2]
      numeric_NewVersion_120 numeric_NewVersion_latest by simp
  ultimately show ?thesis by blast
qed

text \<open>
  Claim C8. When both versions parse and the latest is not strictly newer than the
  local one, \<^verbatim>\<open>ReturnUpdatedCm\<close> returns the message "No update needed" with a nil
  error and leaves the module, and with it the config map, as it was; the yaml codec
  is not consulted.
\<close>

theorem ReturnUpdatedCm_no_update:
  assumes "NewVersion sv (LatestVersion m) = Inr a"
    and "NewVersion sv (LocalVersion m) = Inr b"
    and "Compare sv a b \<le> 0"
  shows "ReturnUpdatedCm sv yaml m
           = (Inr (''No update needed. Latest version is '' @ LatestVersion m), m)"
  using assms by (simp add: ReturnUpdatedCm_def IsNewerVersion_def)

theorem ReturnUpdatedCm_no_update_witness:
  "ReturnUpdatedCm numeric_semver lines_yaml
     \<lparr>LatestVersion = ''1.1.9'', LocalVersion = ''1.2.0'', ConfigMap = Inr ''not a config map''\<rparr>
   = (Inr ''No update needed. Latest version is 1.1.9'',
      \<lparr>LatestVersion = ''1.1.9'', LocalVersion = ''1.2.0'', ConfigMap = Inr ''not a config map''\<rparr>)"
proof -
  let ?m = "\<lparr>LatestVersion = ''1.1.9'', LocalVersion = ''1.2.0'', ConfigMap = Inr ''not a config map''\<rparr>"
  have "Compare numeric_semver (1, 1, 9) (1, 2, 0) \<le> 0"
    by (subst numeric_Compare_older) simp
  then show ?thesis
    using ReturnUpdatedCm_no_update [of numeric_semver ?m "(1, 1, 9)" "(1, 2, 0)" lines_yaml]
      numeric_NewVersion_120 numeric_NewVersion_119 by simp
qed

text \<open>
  Claim C10. When the latest version is newer and \<^verbatim>\<open>ReturnUpdatedCm\<close> succeeds, the
  text it returns is the marshalled form of a document that differs from the parsed
  config map in \<^verbatim>\<open>data.version\<close> only, which is the latest version string:
  \<^verbatim>\<open>apiVersion\<close>, \<^verbatim>\<open>kind\<close> and the name, namespace and annotations of the
  metadata are those of the parsed document. The module's config map holds that text
  afterwards.
\<close>

theorem ReturnUpdatedCm_frame:
  assumes "IsNewerVersion sv m = Inr True"
    and "ReturnUpdatedCm sv yaml m = (Inr newContent, m')"
  shows "\<exists>content iVersion iVersion'.
           Contents (ConfigMap m) = Inr content \<and>
           Unmarshal yaml content = Inr iVersion \<and>
           Marshal yaml iVersion' = Inr newContent \<and>
           Data iVersion' = (Data iVersion)\<lparr>Version := LatestVersion m\<rparr> \<and>
           APIVersion iVersion' = APIVersion iVersion \<and>
           Kind iVersion' = Kind iVersion \<and>
           Name (Metadata iVersion') = Name (Metadata iVersion) \<and>
           Namespace (Metadata iVersion') = Namespace (Metadata iVersion) \<and>
           Annotations (Metadata iVersion') = Annotations (Metadata iVersion) \<and>
           m' = m\<lparr>ConfigMap := Inr newContent\<rparr>"
  using assms
  by (auto simp: ReturnUpdatedCm_def Let_def split: sum.splits)

theorem ReturnUpdatedCm_frame_witness:
  "\<exists>iVersion'.
     IsNewerVersion numeric_semver (istio_module ''1.2.0'' ''1.1.9'') = Inr True \<and>
     fst (ReturnUpdatedCm numeric_semver lines_yaml (istio_module ''1.2.0'' ''1.1.9''))
       = Inr (version_cm_text ''1.2.0'') \<and>
     Marshal lines_yaml iVersion' = Inr (version_cm_text ''1.2.0'') \<and>
     Data iVersion' = \<lparr>Version = ''1.2.0''\<rparr> \<and>
     APIVersion iVersion' = ''v1'' \<and>
     Kind iVersion' = ''ConfigMap'' \<and>
     Name (Metadata iVersion') = ''istio-version'' \<and>
     Namespace (Metadata iVersion') = ''istio-system'' \<and>
     Annotations (Metadata iVersion') = \<lparr>KustomizeToolkitFluxcdIoSsa = ''merge''\<rparr>"
proof -
  let ?m = "istio_module ''1.2.0'' ''1.1.9''"
  let ?run = "ReturnUpdatedCm numeric_semver lines_yaml ?m"
  have newer: "IsNewerVersion numeric_semver ?m = Inr True"
    using numeric_NewVersion_120 numeric_NewVersion_119 numeric_Compare_newer
    by (simp add: IsNewerVersion_def istio_module_def)
  have result: "fst ?run = Inr (version_cm_text ''1.2.0'')"
    using newer lines_Unmarshal_text lines_Marshal_cm [of "''1.2.0''"]
    by (simp add: ReturnUpdatedCm_def Contents_def istio_module_def version_cm_def)
  then have run: "?run = (Inr (version_cm_text ''1.2.0''), snd ?run)"
    by (metis prod.collapse)
  have content: "Contents (ConfigMap ?m) = Inr (version_cm_text ''1.1.9'')"
    by (simp add: Contents_def istio_module_def)
  have latest: "LatestVersion ?m = ''1.2.0''"
    by (simp add: istio_module_def)
  have fields: "APIVersion (version_cm ''1.1.9'') = ''v1''" "Kind (version_cm ''1.1.9'') = ''ConfigMap''"
    "Name (Metadata (version_cm ''1.1.9'')) = ''istio-version''"
    "Namespace (Metadata (version_cm ''1.1.9'')) = ''istio-system''"
    "Annotations (Metadata (version_cm ''1.1.9'')) = \<lparr>KustomizeToolkitFluxcdIoSsa = ''merge''\<rparr>"
    "(Data (version_cm ''1.1.9''))\<lparr>Version := ''1.2.0''\<rparr> = \<lparr>Version = ''1.2.0''\<rparr>"
    by (simp_all add: version_cm_def)
  from ReturnUpdatedCm_frame [OF newer run] content lines_Unmarshal_text latest fields newer result
  show ?thesis by auto
qed

end
